theory Spec2Isabelle
  imports Complex_Main
begin

section \<open>Values exchanged with the outside world\<close>

text \<open>
  The program (\<^verbatim>\<open>app.py\<close>) is glue between two remote services: a chat-completion endpoint
  and a weather provider. Both are reached through library calls whose code is not part of the
  repository, so they enter the model as the fields of an environment record, and the state of
  the outside world as a value of an arbitrary type \<open>'w\<close> that every such call may change.

  JSON values are what \<^verbatim>\<open>json.loads\<close> and \<^verbatim>\<open>response.json()\<close> hand to the program. The
  program never computes with a number, it only prints it, so numbers are of an arbitrary
  type \<open>'n\<close>. A parsed object is an association list read with \<open>map_of\<close>.
  A \<open>string\<close> stands for a Python \<^verbatim>\<open>str\<close>, one \<open>char\<close> for one character.
\<close>

datatype 'n json =
    JNull
  | JBool bool
  | JNum 'n
  | JStr string
  | JArr "'n json list"
  | JObj "(string \<times> 'n json) list"

text \<open>A subscript is a string key (\<^verbatim>\<open>data["name"]\<close>) or an integer index (\<^verbatim>\<open>[0]\<close>).\<close>

datatype key = KStr string | KInt int

text \<open>
  Exceptions are values. All of them are subclasses of Python's \<^verbatim>\<open>Exception\<close>, the class both
  catch-all handlers of the program name; asynchronous interruptions of the interpreter
  (\<^verbatim>\<open>KeyboardInterrupt\<close>, \<^verbatim>\<open>SystemExit\<close>) are outside the model.
  \<open>HTTPError\<close> carries the status code of the response it was raised for; \<open>OtherError\<close> is an
  exception raised inside a library call (connection failure, JSON decoding error, API error),
  identified by an opaque payload.
\<close>

datatype exn =
    HTTPError int
  | KeyError key
  | IndexError
  | TypeError
  | AttributeError
  | OtherError string

definition bind_exn :: "exn + 'a \<Rightarrow> ('a \<Rightarrow> exn + 'b) \<Rightarrow> exn + 'b" where
  "bind_exn m f = (case m of Inl e \<Rightarrow> Inl e | Inr v \<Rightarrow> f v)"

text \<open>
  Python's subscript operator on a parsed JSON value: a dict raises \<^verbatim>\<open>KeyError\<close> on a missing
  key (an integer is never a key of a parsed object), a list and a string accept integer
  indices only and raise \<^verbatim>\<open>IndexError\<close> out of range, everything else is not subscriptable.
  A negative index counts from the end, as in Python; the program itself only uses 0.
\<close>

definition seq_item :: "'a list \<Rightarrow> int \<Rightarrow> 'a option" where
  "seq_item xs i =
     (if 0 \<le> i
      then (if nat i < length xs then Some (xs ! nat i) else None)
      else (if nat (- i) \<le> length xs then Some (xs ! (length xs - nat (- i))) else None))"

fun getitem :: "'n json \<Rightarrow> key \<Rightarrow> exn + 'n json" where
  "getitem (JObj kvs) (KStr k) =
     (case map_of kvs k of None \<Rightarrow> Inl (KeyError (KStr k)) | Some v \<Rightarrow> Inr v)"
| "getitem (JObj kvs) (KInt i) = Inl (KeyError (KInt i))"
| "getitem (JArr xs) (KInt i) =
     (case seq_item xs i of None \<Rightarrow> Inl IndexError | Some v \<Rightarrow> Inr v)"
| "getitem (JStr s) (KInt i) =
     (case seq_item s i of None \<Rightarrow> Inl IndexError | Some ch \<Rightarrow> Inr (JStr [ch]))"
| "getitem _ _ = Inl TypeError"

text \<open>
  What \<^verbatim>\<open>requests.get\<close> returns: a response with its status code and with what
  \<^verbatim>\<open>response.json()\<close> will give (the parsed body, or the exception raised on a body that is not
  JSON). \<^verbatim>\<open>raise_for_status\<close> is the library's: it raises for the codes 400 to 599.
\<close>

record 'n response =
  status_code :: int
  json_result :: "exn + 'n json"

datatype 'n http_outcome = RequestRaised exn | Responded "'n response"

definition raise_for_status :: "'n response \<Rightarrow> exn + unit" where
  "raise_for_status r =
     (if 400 \<le> status_code r \<and> status_code r < 600 then Inl (HTTPError (status_code r))
      else Inr ())"

subsection \<open>The chat protocol\<close>

record tool_call =
  tc_id :: string
  tc_name :: string
  tc_arguments :: string

text \<open>
  The dicts appended to \<^verbatim>\<open>st.session_state.messages\<close>, one constructor for each shape the
  program builds. The content of a plain assistant message is \<^verbatim>\<open>message.content\<close> of the
  endpoint's answer, which may be \<^verbatim>\<open>None\<close>. The entries of \<^verbatim>\<open>"tool_calls"\<close> copy the
  identifier, name and arguments of each request (their \<^verbatim>\<open>"type"\<close> is the constant
  \<^verbatim>\<open>"function"\<close>).
\<close>

datatype message =
    SystemMsg string
  | UserMsg string
  | AssistantMsg "string option"
  | AssistantCalls string "tool_call list"
  | ToolMsg string string

record tool_decl =
  decl_type :: string
  decl_name :: string
  decl_description :: string
  decl_properties :: "(string \<times> string \<times> string) list"
  decl_required :: "string list"

record request =
  req_model :: string
  req_messages :: "message list"
  req_tools :: "tool_decl list option"
  req_tool_choice :: "string option"
  req_max_tokens :: nat
  req_temperature :: rat

record response_message =
  rm_content :: "string option"
  rm_tool_calls :: "tool_call list option"

record completion =
  choices :: "response_message list"

subsection \<open>The environment\<close>

text \<open>
  The library calls and interpreter primitives the program relies on:
  \<^item> \<open>requests_get w city\<close>: the GET to the weather provider with \<^verbatim>\<open>q=city\<close>;
  \<^item> \<open>completions_create w req\<close>: \<^verbatim>\<open>client.chat.completions.create\<close>;
  \<^item> \<open>json_loads\<close>: \<^verbatim>\<open>json.loads\<close>;
  \<^item> \<open>str_exn\<close>: \<^verbatim>\<open>str(e)\<close> of an exception;
  \<^item> \<open>str_value\<close>: what an f-string prints for a value that is not a \<^verbatim>\<open>str\<close>;
  \<^item> \<open>str_capitalize\<close>: \<^verbatim>\<open>str.capitalize\<close>.
\<close>

record ('n, 'w) env =
  requests_get :: "'w \<Rightarrow> 'n json \<Rightarrow> 'n http_outcome \<times> 'w"
  completions_create :: "'w \<Rightarrow> request \<Rightarrow> (exn + completion) \<times> 'w"
  json_loads :: "string \<Rightarrow> exn + 'n json"
  str_exn :: "exn \<Rightarrow> string"
  str_value :: "'n json \<Rightarrow> string"
  str_capitalize :: "string \<Rightarrow> string"

text \<open>A replacement field \<^verbatim>\<open>{v}\<close> of an f-string: a \<^verbatim>\<open>str\<close> is printed as it is.\<close>

definition fmt :: "('n, 'w) env \<Rightarrow> 'n json \<Rightarrow> string" where
  "fmt env v = (case v of JStr s \<Rightarrow> s | _ \<Rightarrow> str_value env v)"

text \<open>
  The session: the history \<^verbatim>\<open>st.session_state.messages\<close>, the outside world, and a log of the
  outbound calls made so far (newest last). The log is not program state: nothing reads it,
  it is there to state what was sent and when.
\<close>

datatype 'n call = WeatherCall "'n json" | CompletionCall request

record ('n, 'w) session =
  messages :: "message list"
  world :: 'w
  calls :: "'n call list"

section \<open>Weather lookup client\<close>

record 'n weather_info =
  wi_city :: "'n json"
  wi_country :: "'n json"
  wi_temperature :: "'n json"
  wi_feels_like :: "'n json"
  wi_humidity :: "'n json"
  wi_description :: "'n json"
  wi_wind_speed :: "'n json"

datatype 'n weather_result = Success "'n weather_info" | Failure string

definition apostrophe :: string where
  "apostrophe = [CHR 0x27]"

text \<open>Lines 65 to 73: the seven subscript chains, in the order the dict display evaluates them.\<close>

definition extract_weather_info :: "'n json \<Rightarrow> exn + 'n weather_info" where
  "extract_weather_info data =
     bind_exn (getitem data (KStr ''name'')) (\<lambda>v_city.
     bind_exn (bind_exn (getitem data (KStr ''sys'')) (\<lambda>d. getitem d (KStr ''country''))) (\<lambda>v_country.
     bind_exn (bind_exn (getitem data (KStr ''main'')) (\<lambda>d. getitem d (KStr ''temp''))) (\<lambda>v_temp.
     bind_exn (bind_exn (getitem data (KStr ''main'')) (\<lambda>d. getitem d (KStr ''feels_like''))) (\<lambda>v_feels.
     bind_exn (bind_exn (getitem data (KStr ''main'')) (\<lambda>d. getitem d (KStr ''humidity''))) (\<lambda>v_hum.
     bind_exn (bind_exn (bind_exn (getitem data (KStr ''weather'')) (\<lambda>d. getitem d (KInt 0)))
                 (\<lambda>d. getitem d (KStr ''description''))) (\<lambda>v_descr.
     bind_exn (bind_exn (getitem data (KStr ''wind'')) (\<lambda>d. getitem d (KStr ''speed''))) (\<lambda>v_wind.
     Inr \<lparr> wi_city = v_city, wi_country = v_country, wi_temperature = v_temp,
           wi_feels_like = v_feels, wi_humidity = v_hum, wi_description = v_descr,
           wi_wind_speed = v_wind \<rparr>)))))))"

text \<open>The body of the \<^verbatim>\<open>try\<close> block (lines 53 to 78), after the request has come back.\<close>

definition get_weather_try :: "'n http_outcome \<Rightarrow> exn + 'n weather_result" where
  "get_weather_try outcome =
     (case outcome of
        RequestRaised e \<Rightarrow> Inl e
      | Responded r \<Rightarrow>
          bind_exn (raise_for_status r) (\<lambda>_.
          bind_exn (json_result r) (\<lambda>data.
          bind_exn (extract_weather_info data) (\<lambda>info.
          Inr (Success info)))))"

text \<open>
  The two \<^verbatim>\<open>except\<close> clauses (lines 80 to 86), tried in order: \<^verbatim>\<open>HTTPError\<close> first, then
  \<^verbatim>\<open>Exception\<close>. A handler is code as well and could raise; its result is a sum for that reason.
\<close>

fun get_weather_except :: "('n, 'w) env \<Rightarrow> 'n json \<Rightarrow> exn \<Rightarrow> exn + 'n weather_result" where
  "get_weather_except env city (HTTPError code) =
     (if code = 404
      then Inr (Failure (''City '' @ apostrophe @ fmt env city @ apostrophe
                          @ '' not found. Please check the spelling.''))
      else Inr (Failure (''HTTP error occurred: '' @ str_exn env (HTTPError code))))"
| "get_weather_except env city e =
     Inr (Failure (''Error fetching weather data: '' @ str_exn env e))"

definition get_weather ::
  "('n, 'w) env \<Rightarrow> ('n, 'w) session \<Rightarrow> 'n json \<Rightarrow> (exn + 'n weather_result) \<times> ('n, 'w) session" where
  "get_weather env st city =
     (case requests_get env (world st) city of (outcome, w') \<Rightarrow>
        let st' = st \<lparr> world := w', calls := calls st @ [WeatherCall city] \<rparr> in
        (case get_weather_try outcome of
           Inr r \<Rightarrow> (Inr r, st')
         | Inl e \<Rightarrow> (get_weather_except env city e, st')))"

section \<open>Tool dispatcher\<close>

definition newline :: string where
  "newline = [CHR 0x0A]"

text \<open>The degree sign of the source text, code point U+00B0.\<close>

definition degree :: string where
  "degree = [CHR 0xB0]"

text \<open>
  \<^verbatim>\<open>data['description'].capitalize()\<close>: only a \<^verbatim>\<open>str\<close> has the method; on any other value
  the attribute lookup raises \<^verbatim>\<open>AttributeError\<close>.
\<close>

definition method_capitalize :: "('n, 'w) env \<Rightarrow> 'n json \<Rightarrow> exn + string" where
  "method_capitalize env v =
     (case v of JStr s \<Rightarrow> Inr (str_capitalize env s) | _ \<Rightarrow> Inl AttributeError)"

text \<open>The f-string of lines 107 to 111.\<close>

definition render_weather :: "('n, 'w) env \<Rightarrow> 'n weather_info \<Rightarrow> exn + string" where
  "render_weather env d =
     bind_exn (method_capitalize env (wi_description d)) (\<lambda>descr.
       Inr (''Weather in '' @ fmt env (wi_city d) @ '', '' @ fmt env (wi_country d) @ '':'' @ newline
            @ ''- Temperature: '' @ fmt env (wi_temperature d) @ degree
            @ ''C (feels like '' @ fmt env (wi_feels_like d) @ degree @ ''C)'' @ newline
            @ ''- Conditions: '' @ descr @ newline
            @ ''- Humidity: '' @ fmt env (wi_humidity d) @ ''%'' @ newline
            @ ''- Wind Speed: '' @ fmt env (wi_wind_speed d) @ '' m/s''))"

text \<open>
  Lines 99 to 117. The argument payload is parsed first, whatever the name is; an exception
  of \<^verbatim>\<open>json.loads\<close>, of the subscript \<^verbatim>\<open>arguments["city"]\<close> or of the rendering leaves the
  function, which has no handler of its own.
\<close>

definition execute_tool_call ::
  "('n, 'w) env \<Rightarrow> ('n, 'w) session \<Rightarrow> tool_call \<Rightarrow> (exn + string) \<times> ('n, 'w) session" where
  "execute_tool_call env st tc =
     (let function_name = tc_name tc in
      case json_loads env (tc_arguments tc) of
        Inl e \<Rightarrow> (Inl e, st)
      | Inr arguments \<Rightarrow>
          if function_name = ''get_weather'' then
            (case getitem arguments (KStr ''city'') of
               Inl e \<Rightarrow> (Inl e, st)
             | Inr c \<Rightarrow>
                 (case get_weather env st c of
                    (Inl e, st') \<Rightarrow> (Inl e, st')
                  | (Inr (Success d), st') \<Rightarrow> (render_weather env d, st')
                  | (Inr (Failure err), st') \<Rightarrow> (Inr err, st')))
          else (Inr ''Unknown tool'', st))"

section \<open>Conversation orchestrator\<close>

definition SYSTEM_PROMPT :: string where
  "SYSTEM_PROMPT =
     ''You are a helpful AI assistant with access to weather information.'' @ newline
     @ ''You can look up current weather conditions for any city in the world.'' @ newline
     @ newline
     @ ''When users ask about weather, you should use the get_weather tool to fetch real-time data.''
     @ newline
     @ ''Always be friendly, concise, and accurate in your responses.'' @ newline
     @ newline
     @ ''If a user asks about weather without specifying a city, politely ask them which city they''
     @ apostrophe @ ''d like to know about.''"

definition TOOLS :: "tool_decl list" where
  "TOOLS =
     [\<lparr> decl_type = ''function'',
        decl_name = ''get_weather'',
        decl_description = ''Get current weather information for a specified city'',
        decl_properties =
          [(''city'', ''string'',
            ''The city name (e.g., '' @ apostrophe @ ''London'' @ apostrophe @ '', ''
              @ apostrophe @ ''New York'' @ apostrophe @ '', ''
              @ apostrophe @ ''Tokyo'' @ apostrophe @ '')'')],
        decl_required = [''city''] \<rparr>]"

text \<open>
  The two requests. Both carry the system instruction in front of the history as it is when
  the request is built (\<^verbatim>\<open>[...] + st.session_state.messages\<close> copies the list). The first
  (lines 140 to 147) declares the tools and leaves the choice to the model; the second
  (lines 180 to 185) passes neither argument. The temperature is the literal \<^verbatim>\<open>0.7\<close>.
\<close>

definition first_request :: "message list \<Rightarrow> request" where
  "first_request history =
     \<lparr> req_model = ''llama-3.3-70b-versatile'',
       req_messages = SystemMsg SYSTEM_PROMPT # history,
       req_tools = Some TOOLS,
       req_tool_choice = Some ''auto'',
       req_max_tokens = 1024,
       req_temperature = 7 / 10 \<rparr>"

definition final_request :: "message list \<Rightarrow> request" where
  "final_request history =
     \<lparr> req_model = ''llama-3.3-70b-versatile'',
       req_messages = SystemMsg SYSTEM_PROMPT # history,
       req_tools = None,
       req_tool_choice = None,
       req_max_tokens = 1024,
       req_temperature = 7 / 10 \<rparr>"

definition append_message :: "('n, 'w) session \<Rightarrow> message \<Rightarrow> ('n, 'w) session" where
  "append_message st m = st \<lparr> messages := messages st @ [m] \<rparr>"

definition call_completion ::
  "('n, 'w) env \<Rightarrow> ('n, 'w) session \<Rightarrow> request \<Rightarrow> (exn + completion) \<times> ('n, 'w) session" where
  "call_completion env st req =
     (case completions_create env (world st) req of (r, w') \<Rightarrow>
        (r, st \<lparr> world := w', calls := calls st @ [CompletionCall req] \<rparr>))"

text \<open>\<^verbatim>\<open>response.choices[0].message\<close>: an empty list of choices raises \<^verbatim>\<open>IndexError\<close>.\<close>

definition first_choice :: "completion \<Rightarrow> exn + response_message" where
  "first_choice c = (case choices c of [] \<Rightarrow> Inl IndexError | m # _ \<Rightarrow> Inr m)"

text \<open>
  \<^verbatim>\<open>response_message.tool_calls\<close> is tested for truth: \<^verbatim>\<open>None\<close> and the empty list both mean
  that no tool invocation is requested.
\<close>

definition requested_calls :: "response_message \<Rightarrow> tool_call list" where
  "requested_calls m = (case rm_tool_calls m of None \<Rightarrow> [] | Some tcs \<Rightarrow> tcs)"

text \<open>\<^verbatim>\<open>response_message.content or ""\<close>.\<close>

definition content_or_empty :: "response_message \<Rightarrow> string" where
  "content_or_empty m = (case rm_content m of None \<Rightarrow> [] | Some s \<Rightarrow> s)"

text \<open>
  The loop of lines 167 to 174: each request is dispatched and its result appended as a tool
  message carrying the request's identifier. An exception of the dispatcher ends the loop
  with the messages appended so far.
\<close>

fun run_tool_calls ::
  "('n, 'w) env \<Rightarrow> ('n, 'w) session \<Rightarrow> tool_call list \<Rightarrow> (exn + unit) \<times> ('n, 'w) session" where
  "run_tool_calls env st [] = (Inr (), st)"
| "run_tool_calls env st (tc # tcs) =
     (case execute_tool_call env st tc of
        (Inl e, st') \<Rightarrow> (Inl e, st')
      | (Inr tool_result, st') \<Rightarrow>
          run_tool_calls env (append_message st' (ToolMsg (tc_id tc) tool_result)) tcs)"

text \<open>Lines 192 to 197.\<close>

definition finish_turn ::
  "('n, 'w) session \<Rightarrow> string option \<Rightarrow> (exn + string option) \<times> ('n, 'w) session" where
  "finish_turn st final_message = (Inr final_message, append_message st (AssistantMsg final_message))"

text \<open>The \<^verbatim>\<open>try\<close> block, lines 140 to 197, entered with the user message already appended.\<close>

definition chat_try ::
  "('n, 'w) env \<Rightarrow> ('n, 'w) session \<Rightarrow> (exn + string option) \<times> ('n, 'w) session" where
  "chat_try env st =
     (case call_completion env st (first_request (messages st)) of
        (Inl e, st1) \<Rightarrow> (Inl e, st1)
      | (Inr response, st1) \<Rightarrow>
          (case first_choice response of
             Inl e \<Rightarrow> (Inl e, st1)
           | Inr response_message \<Rightarrow>
               if requested_calls response_message \<noteq> [] then
                 (let st2 = append_message st1
                              (AssistantCalls (content_or_empty response_message)
                                 (requested_calls response_message)) in
                  case run_tool_calls env st2 (requested_calls response_message) of
                    (Inl e, st3) \<Rightarrow> (Inl e, st3)
                  | (Inr _, st3) \<Rightarrow>
                      (case call_completion env st3 (final_request (messages st3)) of
                         (Inl e, st4) \<Rightarrow> (Inl e, st4)
                       | (Inr final_response, st4) \<Rightarrow>
                           (case first_choice final_response of
                              Inl e \<Rightarrow> (Inl e, st4)
                            | Inr final_choice \<Rightarrow> finish_turn st4 (rm_content final_choice))))
               else finish_turn st1 (rm_content response_message)))"

text \<open>The handler, lines 199 to 205.\<close>

definition chat_except ::
  "('n, 'w) env \<Rightarrow> ('n, 'w) session \<Rightarrow> exn \<Rightarrow> (exn + string option) \<times> ('n, 'w) session" where
  "chat_except env st e =
     (let error_message = ''Error communicating with Groq API: '' @ str_exn env e in
      (Inr (Some error_message), append_message st (AssistantMsg (Some error_message))))"

definition chat_with_groq ::
  "('n, 'w) env \<Rightarrow> ('n, 'w) session \<Rightarrow> string \<Rightarrow> (exn + string option) \<times> ('n, 'w) session" where
  "chat_with_groq env st user_message =
     (case chat_try env (append_message st (UserMsg user_message)) of
        (Inr final_message, st') \<Rightarrow> (Inr final_message, st')
      | (Inl e, st') \<Rightarrow> chat_except env st' e)"

text \<open>
  Several turns in a row, as the shell submits them (line 241), each on the session the
  previous one left.
\<close>

fun chat_turns :: "('n, 'w) env \<Rightarrow> ('n, 'w) session \<Rightarrow> string list \<Rightarrow> ('n, 'w) session" where
  "chat_turns env st [] = st"
| "chat_turns env st (u # us) = chat_turns env (snd (chat_with_groq env st u)) us"

text \<open>Lines 223 and 224: a session starts with an empty history; line 256: the reset.\<close>

definition new_session :: "'w \<Rightarrow> ('n, 'w) session" where
  "new_session w = \<lparr> messages = [], world = w, calls = [] \<rparr>"

definition clear_chat_history :: "('n, 'w) session \<Rightarrow> ('n, 'w) session" where
  "clear_chat_history st = st \<lparr> messages := [] \<rparr>"

section \<open>Notions used to state the properties\<close>

text \<open>The diagnostic string of the orchestrator's handler.\<close>

definition diagnostic :: "('n, 'w) env \<Rightarrow> exn \<Rightarrow> string" where
  "diagnostic env e = ''Error communicating with Groq API: '' @ str_exn env e"

text \<open>
  The turn of the user message \<open>u\<close> on the session \<open>st\<close> gets a completion response that carries
  tool-invocation requests: the first call returns, its first choice exists and its
  \<^verbatim>\<open>tool_calls\<close> are a non-empty list. \<open>tool_round\<close> then gives that response message and the
  session as it is at line 166, once the assistant message holding the requests is appended.
\<close>

definition tool_round ::
  "('n, 'w) env \<Rightarrow> ('n, 'w) session \<Rightarrow> string \<Rightarrow> (response_message \<times> ('n, 'w) session) option" where
  "tool_round env st u =
     (case call_completion env (append_message st (UserMsg u))
             (first_request (messages st @ [UserMsg u])) of
        (Inl e, st1) \<Rightarrow> None
      | (Inr response, st1) \<Rightarrow>
          (case first_choice response of
             Inl e \<Rightarrow> None
           | Inr m \<Rightarrow>
               if requested_calls m \<noteq> []
               then Some (m, append_message st1
                               (AssistantCalls (content_or_empty m) (requested_calls m)))
               else None))"

definition tools_requested :: "('n, 'w) env \<Rightarrow> ('n, 'w) session \<Rightarrow> string \<Rightarrow> bool" where
  "tools_requested env st u = (tool_round env st u \<noteq> None)"

text \<open>No turn of the sequence gets tool-invocation requests.\<close>

fun no_tool_turns :: "('n, 'w) env \<Rightarrow> ('n, 'w) session \<Rightarrow> string list \<Rightarrow> bool" where
  "no_tool_turns env st [] = True"
| "no_tool_turns env st (u # us) =
     (\<not> tools_requested env st u \<and> no_tool_turns env (snd (chat_with_groq env st u)) us)"

text \<open>The tool messages that answer the requests \<open>tcs\<close> with the texts \<open>results\<close>, in order.\<close>

definition tool_messages :: "tool_call list \<Rightarrow> string list \<Rightarrow> message list" where
  "tool_messages tcs results = map (\<lambda>(tc, r). ToolMsg (tc_id tc) r) (zip tcs results)"

text \<open>The completion requests among the logged calls, oldest first.\<close>

fun completion_requests :: "'n call list \<Rightarrow> request list" where
  "completion_requests [] = []"
| "completion_requests (CompletionCall r # cs) = r # completion_requests cs"
| "completion_requests (WeatherCall c # cs) = completion_requests cs"

subsection \<open>A concrete environment\<close>

text \<open>
  A small world to run the program in: numbers are kept as the text Python prints for them,
  the world counts the calls made. The provider knows London (the scenario of the
  specification); every other city is answered with status 404. The completion endpoint answers four user
  messages with a tool request, greets back on \<^verbatim>\<open>Hello\<close>, repeats the tool result when the
  history ends with one, and is unreachable otherwise.
\<close>

definition dquote :: string where
  "dquote = [CHR 0x22]"

definition weather_body :: "string json \<Rightarrow> string json \<Rightarrow> string json" where
  "weather_body name descr =
     JObj [(''name'', name),
           (''sys'', JObj [(''country'', JStr ''GB'')]),
           (''main'', JObj [(''temp'', JNum ''15.2''), (''feels_like'', JNum ''14.8''),
                           (''humidity'', JNum ''70'')]),
           (''weather'', JArr [JObj [(''description'', descr)]]),
           (''wind'', JObj [(''speed'', JNum ''4.1'')])]"

definition demo_requests_get :: "nat \<Rightarrow> string json \<Rightarrow> string http_outcome \<times> nat" where
  "demo_requests_get w c =
     (if c = JStr ''London''
      then Responded \<lparr> status_code = 200,
                       json_result = Inr (weather_body (JStr ''London'') (JStr ''light rain'')) \<rparr>
      else Responded \<lparr> status_code = 404,
                       json_result = Inr (JObj [(''cod'', JStr ''404''),
                                                (''message'', JStr ''city not found'')]) \<rparr>,
      Suc w)"

definition city_arguments :: "string \<Rightarrow> string" where
  "city_arguments c = ''{'' @ dquote @ ''city'' @ dquote @ '': '' @ dquote @ c @ dquote @ ''}''"

definition location_arguments :: string where
  "location_arguments =
     ''{'' @ dquote @ ''location'' @ dquote @ '': '' @ dquote @ ''Paris'' @ dquote @ ''}''"

definition demo_json_loads :: "string \<Rightarrow> exn + string json" where
  "demo_json_loads s =
     (if s = city_arguments ''London'' then Inr (JObj [(''city'', JStr ''London'')])
      else if s = city_arguments ''Zzqqxx'' then Inr (JObj [(''city'', JStr ''Zzqqxx'')])
      else if s = location_arguments then Inr (JObj [(''location'', JStr ''Paris'')])
      else Inl (OtherError ''JSONDecodeError''))"

definition demo_call :: "string \<Rightarrow> string \<Rightarrow> string \<Rightarrow> tool_call" where
  "demo_call i n a = \<lparr> tc_id = i, tc_name = n, tc_arguments = a \<rparr>"

definition demo_answer :: "string option \<Rightarrow> tool_call list option \<Rightarrow> exn + completion" where
  "demo_answer c tcs = Inr \<lparr> choices = [\<lparr> rm_content = c, rm_tool_calls = tcs \<rparr>] \<rparr>"

definition demo_completions_create :: "nat \<Rightarrow> request \<Rightarrow> (exn + completion) \<times> nat" where
  "demo_completions_create w req =
     (case last (req_messages req) of
        UserMsg u \<Rightarrow>
          if u = ''London?''
          then demo_answer None (Some [demo_call ''call_1'' ''get_weather'' (city_arguments ''London'')])
          else if u = ''Zzqqxx?''
          then demo_answer None (Some [demo_call ''call_2'' ''get_weather'' (city_arguments ''Zzqqxx'')])
          else if u = ''Paris?''
          then demo_answer None (Some [demo_call ''call_3'' ''get_weather'' location_arguments])
          else if u = ''Time?''
          then demo_answer None (Some [demo_call ''call_4'' ''get_time'' ''{''])
          else if u = ''Hello''
          then demo_answer (Some ''Hi there!'') None
          else Inl (OtherError ''APIConnectionError'')
      | ToolMsg i text \<Rightarrow>
          if i = ''call_2'' then Inl (OtherError ''APIConnectionError'')
          else demo_answer (Some text) None
      | _ \<Rightarrow> Inl (OtherError ''APIConnectionError''),
      Suc w)"

definition demo_str_exn :: "exn \<Rightarrow> string" where
  "demo_str_exn e =
     (case e of
        KeyError (KStr k) \<Rightarrow> apostrophe @ k @ apostrophe
      | OtherError s \<Rightarrow> s
      | _ \<Rightarrow> ''error'')"

definition demo_str_value :: "string json \<Rightarrow> string" where
  "demo_str_value v = (case v of JNum s \<Rightarrow> s | JNull \<Rightarrow> ''None'' | _ \<Rightarrow> ''value'')"

definition demo_capitalize :: "string \<Rightarrow> string" where
  "demo_capitalize s = (if s = ''light rain'' then ''Light rain'' else s)"

definition demo_env :: "(string, nat) env" where
  "demo_env =
     \<lparr> requests_get = demo_requests_get,
       completions_create = demo_completions_create,
       json_loads = demo_json_loads,
       str_exn = demo_str_exn,
       str_value = demo_str_value,
       str_capitalize = demo_capitalize \<rparr>"

definition demo_session :: "(string, nat) session" where
  "demo_session = new_session 0"

section \<open>Properties of the weather lookup client\<close>

lemma bind_exn_simps:
  "bind_exn (Inl e) f = Inl e" "bind_exn (Inr v) f = f v"
  by (simp_all add: bind_exn_def)

lemma get_weather_except_returns: "\<exists>r. get_weather_except env city e = Inr r"
  by (cases e) simp_all

text \<open>
  Claim C2. For every city, \<open>get_weather\<close> returns a result value, a success or a failure
  record, and no exception leaves it: whatever the request, the status check, the parsing of
  the body or the subscripts raise is turned into a failure record by one of the two
  handlers, and neither handler raises. The statement holds for every value passed as the
  city, strings among them.
\<close>

theorem get_weather_never_raises:
  "\<exists>r. fst (get_weather env st city) = Inr r"
proof (cases "requests_get env (world st) city")
  case (Pair outcome w')
  show ?thesis
  proof (cases "get_weather_try outcome")
    case (Inl e)
    obtain r where "get_weather_except env city e = Inr r"
      using get_weather_except_returns by blast
    with Pair Inl show ?thesis by (simp add: get_weather_def Let_def)
  next
    case (Inr r)
    with Pair show ?thesis by (simp add: get_weather_def Let_def)
  qed
qed

lemma get_weather_try_404:
  "status_code r = 404 \<Longrightarrow> get_weather_try (Responded r) = Inl (HTTPError 404)"
  by (simp add: get_weather_try_def raise_for_status_def bind_exn_simps)

text \<open>
  Claim C3. When the provider answers the request for the city name \<open>c\<close> with status 404, the
  lookup returns the failure record whose reason is
  \<^verbatim>\<open>City 'c' not found. Please check the spelling.\<close>: it contains the queried name and
  suggests checking the spelling.
\<close>

theorem get_weather_not_found:
  assumes "requests_get env (world st) (JStr c) = (Responded r, w')"
    and "status_code r = 404"
  shows "fst (get_weather env st (JStr c)) =
           Inr (Failure (''City '' @ apostrophe @ c @ apostrophe
                          @ '' not found. Please check the spelling.''))"
  using assms by (simp add: get_weather_def Let_def get_weather_try_404 fmt_def)

theorem get_weather_not_found_witness:
  "requests_get demo_env (world demo_session) (JStr ''Zzqqxx'')
     = (Responded \<lparr> status_code = 404,
                     json_result = Inr (JObj [(''cod'', JStr ''404''),
                                              (''message'', JStr ''city not found'')]) \<rparr>, Suc 0)
   \<and> fst (get_weather demo_env demo_session (JStr ''Zzqqxx''))
       = Inr (Failure ''City 'Zzqqxx' not found. Please check the spelling.'')"
proof -
  have h: "requests_get demo_env (world demo_session) (JStr ''Zzqqxx'')
     = (Responded \<lparr> status_code = 404,
                     json_result = Inr (JObj [(''cod'', JStr ''404''),
                                              (''message'', JStr ''city not found'')]) \<rparr>, Suc 0)"
    by (simp add: demo_env_def demo_requests_get_def demo_session_def new_session_def)
  show ?thesis
    using h get_weather_not_found [OF h] by (simp add: apostrophe_def)
qed

section \<open>How the dispatcher and a turn change the session\<close>

lemma get_weather_session:
  "get_weather env st c = (r, st') \<Longrightarrow>
     messages st' = messages st \<and> calls st' = calls st @ [WeatherCall c]"
  by (auto simp: get_weather_def Let_def split: prod.splits sum.splits)

lemma execute_tool_call_messages: "messages (snd (execute_tool_call env st tc)) = messages st"
  by (auto simp: execute_tool_call_def Let_def dest: get_weather_session
           split: prod.splits sum.splits weather_result.splits)

lemma completion_requests_append:
  "completion_requests (xs @ ys) = completion_requests xs @ completion_requests ys"
  by (induction xs rule: completion_requests.induct) simp_all

lemma execute_tool_call_calls:
  "\<exists>new. calls (snd (execute_tool_call env st tc)) = calls st @ new \<and> completion_requests new = []"
proof -
  have "calls (snd (execute_tool_call env st tc)) = calls st @ []
        \<or> (\<exists>c. calls (snd (execute_tool_call env st tc)) = calls st @ [WeatherCall c])"
    by (auto simp: execute_tool_call_def Let_def dest: get_weather_session
             split: prod.splits sum.splits weather_result.splits)
  then show ?thesis
  proof
    assume "calls (snd (execute_tool_call env st tc)) = calls st @ []"
    moreover have "completion_requests ([] :: 'a call list) = []" by simp
    ultimately show ?thesis by blast
  next
    assume "\<exists>c. calls (snd (execute_tool_call env st tc)) = calls st @ [WeatherCall c]"
    then obtain c where "calls (snd (execute_tool_call env st tc)) = calls st @ [WeatherCall c]"
      by blast
    moreover have "completion_requests [WeatherCall c] = []" by simp
    ultimately show ?thesis by blast
  qed
qed

lemma tool_messages_Cons:
  "tool_messages (tc # tcs) (r # rs) = ToolMsg (tc_id tc) r # tool_messages tcs rs"
  by (simp add: tool_messages_def)

lemma run_tool_calls_returns:
  "run_tool_calls env st tcs = (Inr u, st') \<Longrightarrow>
     \<exists>results. length results = length tcs \<and> messages st' = messages st @ tool_messages tcs results"
proof (induction tcs arbitrary: st)
  case Nil
  then show ?case by (simp add: tool_messages_def)
next
  case (Cons tc tcs)
  obtain r st1 where ex: "execute_tool_call env st tc = (r, st1)" by (cases "execute_tool_call env st tc")
  with Cons.prems obtain res where r: "r = Inr res"
    by (cases r) auto
  from ex have m1: "messages st1 = messages st"
    using execute_tool_call_messages [of env st tc] by simp
  from Cons.prems ex r
  have "run_tool_calls env (append_message st1 (ToolMsg (tc_id tc) res)) tcs = (Inr u, st')"
    by simp
  from Cons.IH [OF this] obtain results where
    "length results = length tcs"
    "messages st' = messages (append_message st1 (ToolMsg (tc_id tc) res)) @ tool_messages tcs results"
    by blast
  then have "length (res # results) = length (tc # tcs) \<and>
     messages st' = messages st @ tool_messages (tc # tcs) (res # results)"
    by (simp add: append_message_def m1 tool_messages_Cons)
  then show ?case by blast
qed

lemma run_tool_calls_raises:
  "run_tool_calls env st tcs = (Inl e, st') \<Longrightarrow>
     \<exists>results. length results < length tcs \<and> messages st' = messages st @ tool_messages tcs results"
proof (induction tcs arbitrary: st)
  case Nil
  then show ?case by simp
next
  case (Cons tc tcs)
  obtain r st1 where ex: "execute_tool_call env st tc = (r, st1)" by (cases "execute_tool_call env st tc")
  from ex have m1: "messages st1 = messages st"
    using execute_tool_call_messages [of env st tc] by simp
  show ?case
  proof (cases r)
    case (Inl e')
    with Cons.prems ex have "st' = st1" by simp
    then have "length ([]::string list) < length (tc # tcs) \<and>
       messages st' = messages st @ tool_messages (tc # tcs) []"
      by (simp add: m1 tool_messages_def)
    then show ?thesis by blast
  next
    case (Inr res)
    with Cons.prems ex
    have "run_tool_calls env (append_message st1 (ToolMsg (tc_id tc) res)) tcs = (Inl e, st')"
      by simp
    from Cons.IH [OF this] obtain results where
      "length results < length tcs"
      "messages st' = messages (append_message st1 (ToolMsg (tc_id tc) res)) @ tool_messages tcs results"
      by blast
    then have "length (res # results) < length (tc # tcs) \<and>
       messages st' = messages st @ tool_messages (tc # tcs) (res # results)"
      by (simp add: append_message_def m1 tool_messages_Cons)
    then show ?thesis by blast
  qed
qed

lemma run_tool_calls_calls:
  "\<exists>new. calls (snd (run_tool_calls env st tcs)) = calls st @ new \<and> completion_requests new = []"
proof (induction tcs arbitrary: st)
  case Nil
  then show ?case by simp
next
  case (Cons tc tcs)
  obtain r st1 where ex: "execute_tool_call env st tc = (r, st1)" by (cases "execute_tool_call env st tc")
  obtain new1 where n1: "calls st1 = calls st @ new1" "completion_requests new1 = []"
    using execute_tool_call_calls [of env st tc] ex by auto
  show ?case
  proof (cases r)
    case (Inl e)
    with ex n1 show ?thesis by simp
  next
    case (Inr res)
    obtain new2 where n2:
      "calls (snd (run_tool_calls env (append_message st1 (ToolMsg (tc_id tc) res)) tcs))
         = calls (append_message st1 (ToolMsg (tc_id tc) res)) @ new2"
      "completion_requests new2 = []"
      using Cons.IH by blast
    have "calls (snd (run_tool_calls env st (tc # tcs))) = calls st @ (new1 @ new2)
          \<and> completion_requests (new1 @ new2) = []"
      using ex Inr n1 n2 by (simp add: append_message_def completion_requests_append)
    then show ?thesis by blast
  qed
qed

lemma run_tool_calls_append_raises:
  "run_tool_calls env st pre = (Inr v, st2) \<Longrightarrow> execute_tool_call env st2 tc = (Inl e, st3) \<Longrightarrow>
   run_tool_calls env st (pre @ tc # post) = (Inl e, st3)"
proof (induction pre arbitrary: st)
  case Nil
  then show ?case by simp
next
  case (Cons a pre)
  obtain r st1 where ex: "execute_tool_call env st a = (r, st1)" by (cases "execute_tool_call env st a")
  with Cons.prems(1) obtain res where r: "r = Inr res" by (cases r) auto
  with Cons.prems(1) ex
  have "run_tool_calls env (append_message st1 (ToolMsg (tc_id a) res)) pre = (Inr v, st2)" by simp
  from Cons.IH [OF this Cons.prems(2)] ex r show ?case by simp
qed


lemma tool_round_session:
  assumes "tool_round env st u = Some (m, st2)"
  shows "requested_calls m \<noteq> []"
    and "messages st2 = messages st @ [UserMsg u, AssistantCalls (content_or_empty m) (requested_calls m)]"
    and "calls st2 = calls st @ [CompletionCall (first_request (messages st @ [UserMsg u]))]"
  using assms
  by (auto simp: tool_round_def call_completion_def append_message_def
           split: prod.splits sum.splits if_splits)

lemma chat_tool_round_returns:
  assumes "tool_round env st u = Some (m, st2)"
    and "run_tool_calls env st2 (requested_calls m) = (Inr v, st3)"
  shows "chat_with_groq env st u =
           (case call_completion env st3 (final_request (messages st3)) of
              (Inl e, st4) \<Rightarrow> chat_except env st4 e
            | (Inr final_response, st4) \<Rightarrow>
                (case first_choice final_response of
                   Inl e \<Rightarrow> chat_except env st4 e
                 | Inr final_choice \<Rightarrow> finish_turn st4 (rm_content final_choice)))"
  using assms
  by (auto simp: tool_round_def chat_with_groq_def chat_try_def Let_def append_message_def
                 finish_turn_def
           split: prod.splits sum.splits if_splits)

lemma chat_tool_round_raises:
  assumes "tool_round env st u = Some (m, st2)"
    and "run_tool_calls env st2 (requested_calls m) = (Inl e, st3)"
  shows "chat_with_groq env st u = chat_except env st3 e"
  using assms
  by (auto simp: tool_round_def chat_with_groq_def chat_try_def Let_def append_message_def
           split: prod.splits sum.splits if_splits)

lemma chat_no_tool_round:
  assumes "tool_round env st u = None"
  shows "chat_with_groq env st u =
           (case call_completion env (append_message st (UserMsg u))
                   (first_request (messages st @ [UserMsg u])) of
              (Inl e, st1) \<Rightarrow> chat_except env st1 e
            | (Inr response, st1) \<Rightarrow>
                (case first_choice response of
                   Inl e \<Rightarrow> chat_except env st1 e
                 | Inr m \<Rightarrow> finish_turn st1 (rm_content m)))"
  using assms
  by (auto simp: tool_round_def chat_with_groq_def chat_try_def Let_def append_message_def
                 finish_turn_def
           split: prod.splits sum.splits if_splits)

section \<open>Properties of the session reset\<close>

text \<open>
  Claim C8. Clearing the history is idempotent: from any session, clearing twice gives the
  same session as clearing once, and its history is empty.
\<close>

theorem clear_chat_history_idempotent:
  "clear_chat_history (clear_chat_history st) = clear_chat_history st
   \<and> messages (clear_chat_history st) = []"
  by (simp add: clear_chat_history_def)

section \<open>Properties of the orchestrator\<close>

lemma chat_except_session:
  "chat_except env st e = (Inr (Some (diagnostic env e)),
      append_message st (AssistantMsg (Some (diagnostic env e))))"
  by (simp add: chat_except_def diagnostic_def Let_def)

lemma plain_turn_messages:
  assumes "\<not> tools_requested env st u"
  shows "\<exists>a. messages (snd (chat_with_groq env st u)) = messages st @ [UserMsg u, AssistantMsg a]"
proof -
  from assms have "tool_round env st u = None" unfolding tools_requested_def by blast
  from chat_no_tool_round [OF this] show ?thesis
    by (auto simp: chat_except_session finish_turn_def append_message_def call_completion_def
             split: prod.splits sum.splits)
qed

lemma plain_turns_messages:
  "no_tool_turns env st us \<Longrightarrow>
     \<exists>answers. length answers = length us \<and>
       messages (chat_turns env st us)
         = messages st @ concat (map (\<lambda>(u, a). [UserMsg u, AssistantMsg a]) (zip us answers))"
proof (induction us arbitrary: st)
  case Nil
  then show ?case by simp
next
  case (Cons u us)
  let ?st1 = "snd (chat_with_groq env st u)"
  from Cons.prems have p: "\<not> tools_requested env st u" "no_tool_turns env ?st1 us" by simp_all
  from plain_turn_messages [OF p(1)] obtain a where
    a: "messages ?st1 = messages st @ [UserMsg u, AssistantMsg a]" by blast
  from Cons.IH [OF p(2)] obtain answers where
    "length answers = length us"
    "messages (chat_turns env ?st1 us)
       = messages ?st1 @ concat (map (\<lambda>(u, a). [UserMsg u, AssistantMsg a]) (zip us answers))"
    by blast
  with a have "length (a # answers) = length (u # us) \<and>
     messages (chat_turns env st (u # us))
       = messages st @ concat (map (\<lambda>(u, a). [UserMsg u, AssistantMsg a]) (zip (u # us) (a # answers)))"
    by simp
  then show ?case by blast
qed

lemma length_plain_history:
  "length answers = length us \<Longrightarrow>
   length (concat (map (\<lambda>(u, a). [UserMsg u, AssistantMsg a]) (zip us answers))) = 2 * length us"
  by (induction us answers rule: list_induct2') simp_all

text \<open>
  Claim C5. Starting from an empty history, \<open>N\<close> user turns none of which gets tool-invocation
  requests leave a history of exactly \<open>2 * N\<close> messages: for each turn the user message
  followed by one assistant message. (A turn whose completion call fails gets no requests
  either; its assistant message is the diagnostic.)
\<close>

theorem plain_turns_length:
  assumes "messages st = []" and "no_tool_turns env st us"
  shows "length (messages (chat_turns env st us)) = 2 * length us
       \<and> (\<exists>answers. length answers = length us \<and>
            messages (chat_turns env st us)
              = concat (map (\<lambda>(u, a). [UserMsg u, AssistantMsg a]) (zip us answers)))"
proof -
  from plain_turns_messages [OF assms(2)] assms(1) obtain answers where
    a: "length answers = length us"
       "messages (chat_turns env st us)
         = concat (map (\<lambda>(u, a). [UserMsg u, AssistantMsg a]) (zip us answers))"
    by auto
  then have "length (messages (chat_turns env st us)) = 2 * length us"
    by (simp add: length_plain_history)
  with a show ?thesis by blast
qed


theorem plain_turns_length_witness:
  "messages demo_session = []
   \<and> no_tool_turns demo_env demo_session [''Hello'', ''Tokyo?'', ''Hello'']
   \<and> length (messages (chat_turns demo_env demo_session [''Hello'', ''Tokyo?'', ''Hello''])) = 6
   \<and> messages (chat_turns demo_env demo_session [''Hello'', ''Tokyo?'', ''Hello''])
       = [UserMsg ''Hello'', AssistantMsg (Some ''Hi there!''),
          UserMsg ''Tokyo?'', AssistantMsg (Some (diagnostic demo_env (OtherError ''APIConnectionError''))),
          UserMsg ''Hello'', AssistantMsg (Some ''Hi there!'')]"
proof -
  have h1: "messages demo_session = []"
    by (simp add: demo_session_def new_session_def)
  have h2: "no_tool_turns demo_env demo_session [''Hello'', ''Tokyo?'', ''Hello'']"
    by code_simp
  have h3: "messages (chat_turns demo_env demo_session [''Hello'', ''Tokyo?'', ''Hello''])
       = [UserMsg ''Hello'', AssistantMsg (Some ''Hi there!''),
          UserMsg ''Tokyo?'', AssistantMsg (Some (diagnostic demo_env (OtherError ''APIConnectionError''))),
          UserMsg ''Hello'', AssistantMsg (Some ''Hi there!'')]"
    by code_simp
  from plain_turns_length [OF h1 h2] h1 h2 h3 show ?thesis by simp
qed

lemma chat_with_groq_returns: "\<exists>a. fst (chat_with_groq env st u) = Inr a"
  by (auto simp: chat_with_groq_def chat_except_session split: prod.splits sum.splits)

lemma first_call_raises:
  assumes "fst (completions_create env (world st) (first_request (messages st @ [UserMsg u]))) = Inl e"
  shows "fst (chat_with_groq env st u) = Inr (Some (diagnostic env e))"
    and "messages (snd (chat_with_groq env st u))
           = messages st @ [UserMsg u, AssistantMsg (Some (diagnostic env e))]"
proof -
  obtain r w' where c: "completions_create env (world st) (first_request (messages st @ [UserMsg u])) = (r, w')"
    by (cases "completions_create env (world st) (first_request (messages st @ [UserMsg u]))")
  with assms have r: "r = Inl e" by simp
  have cc: "call_completion env (append_message st (UserMsg u)) (first_request (messages st @ [UserMsg u]))
          = (Inl e, append_message st (UserMsg u)
               \<lparr> world := w', calls := calls st @ [CompletionCall (first_request (messages st @ [UserMsg u]))] \<rparr>)"
    using c r by (simp add: call_completion_def append_message_def)
  then have "tool_round env st u = None"
    by (simp add: tool_round_def)
  from chat_no_tool_round [OF this] cc
  have eq: "chat_with_groq env st u = chat_except env (append_message st (UserMsg u)
               \<lparr> world := w', calls := calls st @ [CompletionCall (first_request (messages st @ [UserMsg u]))] \<rparr>) e"
    by simp
  show "fst (chat_with_groq env st u) = Inr (Some (diagnostic env e))"
    by (simp add: eq chat_except_session)
  show "messages (snd (chat_with_groq env st u))
           = messages st @ [UserMsg u, AssistantMsg (Some (diagnostic env e))]"
    by (simp add: eq chat_except_session append_message_def)
qed

lemma tool_round_completed:
  assumes "tool_round env st u = Some (m, st2)"
    and "run_tool_calls env st2 (requested_calls m) = (Inr v, st3)"
  shows "\<exists>a. fst (chat_with_groq env st u) = Inr a
           \<and> (\<forall>e. fst (completions_create env (world st3) (final_request (messages st3))) = Inl e
                  \<longrightarrow> a = Some (diagnostic env e))
           \<and> messages (snd (chat_with_groq env st u)) = messages st3 @ [AssistantMsg a]
           \<and> calls (snd (chat_with_groq env st u))
               = calls st3 @ [CompletionCall (final_request (messages st3))]"
  unfolding chat_tool_round_returns [OF assms]
  by (auto simp: call_completion_def chat_except_session finish_turn_def append_message_def
           split: prod.splits sum.splits)

lemma tool_round_history:
  assumes "tool_round env st u = Some (m, st2)"
    and "run_tool_calls env st2 (requested_calls m) = (Inr v, st3)"
  shows "\<exists>results. length results = length (requested_calls m)
           \<and> messages st3 = messages st @ [UserMsg u,
                 AssistantCalls (content_or_empty m) (requested_calls m)]
                 @ tool_messages (requested_calls m) results"
proof -
  from run_tool_calls_returns [OF assms(2)] obtain results where
    "length results = length (requested_calls m)"
    "messages st3 = messages st2 @ tool_messages (requested_calls m) results"
    by blast
  with tool_round_session(2) [OF assms(1)] show ?thesis by auto
qed

text \<open>
  Claim C6. An error of the completion endpoint is caught and reported, at either call.
  If the first call raises \<open>e\<close>, the turn returns the diagnostic string built from \<open>e\<close> and the
  history is the old one followed by the user message and the diagnostic as an assistant
  message. If the call after a tool round raises \<open>e\<close>, the turn again returns the diagnostic,
  and the history keeps everything appended before the failure (user message, assistant
  message with the requests, one tool message per request) followed by the diagnostic.
  In every case a further turn on the resulting session returns an answer.
\<close>

theorem completion_error_reported:
  "(fst (completions_create env (world st) (first_request (messages st @ [UserMsg u]))) = Inl e \<longrightarrow>
      fst (chat_with_groq env st u) = Inr (Some (diagnostic env e)) \<and>
      messages (snd (chat_with_groq env st u))
        = messages st @ [UserMsg u, AssistantMsg (Some (diagnostic env e))])
   \<and> (tool_round env st u = Some (m, st2) \<and>
      run_tool_calls env st2 (requested_calls m) = (Inr v, st3) \<and>
      fst (completions_create env (world st3) (final_request (messages st3))) = Inl e \<longrightarrow>
        fst (chat_with_groq env st u) = Inr (Some (diagnostic env e)) \<and>
        (\<exists>results. length results = length (requested_calls m) \<and>
           messages (snd (chat_with_groq env st u))
             = messages st @ [UserMsg u, AssistantCalls (content_or_empty m) (requested_calls m)]
               @ tool_messages (requested_calls m) results
               @ [AssistantMsg (Some (diagnostic env e))]))
   \<and> (\<exists>a. fst (chat_with_groq env (snd (chat_with_groq env st u)) u') = Inr a)"
proof (intro conjI impI)
  assume "fst (completions_create env (world st) (first_request (messages st @ [UserMsg u]))) = Inl e"
  then show "fst (chat_with_groq env st u) = Inr (Some (diagnostic env e))"
    and "messages (snd (chat_with_groq env st u))
        = messages st @ [UserMsg u, AssistantMsg (Some (diagnostic env e))]"
    by (rule first_call_raises)+
next
  assume a: "tool_round env st u = Some (m, st2) \<and>
      run_tool_calls env st2 (requested_calls m) = (Inr v, st3) \<and>
      fst (completions_create env (world st3) (final_request (messages st3))) = Inl e"
  then have tr: "tool_round env st u = Some (m, st2)"
    and rt: "run_tool_calls env st2 (requested_calls m) = (Inr v, st3)"
    and ce: "fst (completions_create env (world st3) (final_request (messages st3))) = Inl e"
    by simp_all
  from tool_round_completed [OF tr rt] ce
  have r: "fst (chat_with_groq env st u) = Inr (Some (diagnostic env e))"
    and h: "messages (snd (chat_with_groq env st u)) = messages st3 @ [AssistantMsg (Some (diagnostic env e))]"
    by auto
  show "fst (chat_with_groq env st u) = Inr (Some (diagnostic env e))" by (rule r)
  from tool_round_history [OF tr rt] h
  show "\<exists>results. length results = length (requested_calls m) \<and>
           messages (snd (chat_with_groq env st u))
             = messages st @ [UserMsg u, AssistantCalls (content_or_empty m) (requested_calls m)]
               @ tool_messages (requested_calls m) results
               @ [AssistantMsg (Some (diagnostic env e))]"
    by auto
next
  show "\<exists>a. fst (chat_with_groq env (snd (chat_with_groq env st u)) u') = Inr a"
    by (rule chat_with_groq_returns)
qed


theorem completion_error_reported_witness:
  "fst (completions_create demo_env (world demo_session)
          (first_request (messages demo_session @ [UserMsg ''Tokyo?''])))
     = Inl (OtherError ''APIConnectionError'')
   \<and> fst (chat_with_groq demo_env demo_session ''Tokyo?'')
       = Inr (Some (diagnostic demo_env (OtherError ''APIConnectionError'')))
   \<and> messages (snd (chat_with_groq demo_env demo_session ''Tokyo?''))
       = [UserMsg ''Tokyo?'',
          AssistantMsg (Some (diagnostic demo_env (OtherError ''APIConnectionError'')))]
   \<and> tools_requested demo_env demo_session ''Zzqqxx?''
   \<and> fst (chat_with_groq demo_env demo_session ''Zzqqxx?'')
       = Inr (Some (diagnostic demo_env (OtherError ''APIConnectionError'')))
   \<and> messages (snd (chat_with_groq demo_env demo_session ''Zzqqxx?''))
       = [UserMsg ''Zzqqxx?'',
          AssistantCalls [] [demo_call ''call_2'' ''get_weather'' (city_arguments ''Zzqqxx'')],
          ToolMsg ''call_2'' ''City 'Zzqqxx' not found. Please check the spelling.'',
          AssistantMsg (Some (diagnostic demo_env (OtherError ''APIConnectionError'')))]
   \<and> (\<exists>a. fst (chat_with_groq demo_env (snd (chat_with_groq demo_env demo_session ''Zzqqxx?''))
                ''Hello'') = Inr a)"
proof -
  let ?e = "OtherError ''APIConnectionError''"
  let ?r = "the (tool_round demo_env demo_session ''Zzqqxx?'')"
  let ?st3 = "snd (run_tool_calls demo_env (snd ?r) (requested_calls (fst ?r)))"
  have f: "fst (completions_create demo_env (world demo_session)
          (first_request (messages demo_session @ [UserMsg ''Tokyo?'']))) = Inl ?e"
    by code_simp
  have t: "tool_round demo_env demo_session ''Zzqqxx?'' = Some (fst ?r, snd ?r)"
    by code_simp
  have l: "run_tool_calls demo_env (snd ?r) (requested_calls (fst ?r)) = (Inr (), ?st3)"
    by code_simp
  have c: "fst (completions_create demo_env (world ?st3) (final_request (messages ?st3))) = Inl ?e"
    by code_simp
  have m: "messages (snd (chat_with_groq demo_env demo_session ''Zzqqxx?''))
       = [UserMsg ''Zzqqxx?'',
          AssistantCalls [] [demo_call ''call_2'' ''get_weather'' (city_arguments ''Zzqqxx'')],
          ToolMsg ''call_2'' ''City 'Zzqqxx' not found. Please check the spelling.'',
          AssistantMsg (Some (diagnostic demo_env ?e))]"
    by code_simp
  have d: "messages demo_session = []"
    by (simp add: demo_session_def new_session_def)
  have q: "tools_requested demo_env demo_session ''Zzqqxx?''"
    by code_simp
  note first = completion_error_reported
    [of demo_env demo_session "''Tokyo?''" ?e "fst ?r" "snd ?r" "()" ?st3 "''Hello''"]
  note second = completion_error_reported
    [of demo_env demo_session "''Zzqqxx?''" ?e "fst ?r" "snd ?r" "()" ?st3 "''Hello''"]
  from first f d have
    "fst (chat_with_groq demo_env demo_session ''Tokyo?'') = Inr (Some (diagnostic demo_env ?e))
     \<and> messages (snd (chat_with_groq demo_env demo_session ''Tokyo?''))
         = [UserMsg ''Tokyo?'', AssistantMsg (Some (diagnostic demo_env ?e))]"
    by simp
  moreover from second t l c have
    "fst (chat_with_groq demo_env demo_session ''Zzqqxx?'') = Inr (Some (diagnostic demo_env ?e))
     \<and> (\<exists>a. fst (chat_with_groq demo_env (snd (chat_with_groq demo_env demo_session ''Zzqqxx?''))
                ''Hello'') = Inr a)"
    by blast
  ultimately show ?thesis using f q m by blast
qed

lemma request_shapes:
  "req_tools (first_request h) = Some TOOLS"
  "req_tool_choice (first_request h) = Some ''auto''"
  "req_messages (first_request h) = SystemMsg SYSTEM_PROMPT # h"
  "req_tools (final_request h) = None"
  "req_tool_choice (final_request h) = None"
  "req_messages (final_request h) = SystemMsg SYSTEM_PROMPT # h"
  by (simp_all add: first_request_def final_request_def)

lemma turn_without_final_call:
  assumes "chat_with_groq env st u = chat_except env st' e"
    and "calls st' = calls st @ CompletionCall (first_request (messages st @ [UserMsg u])) # new"
    and "completion_requests new = []"
  shows "\<exists>new. calls (snd (chat_with_groq env st u)) = calls st @ new
           \<and> completion_requests new = [first_request (messages st @ [UserMsg u])]"
proof -
  have "calls (snd (chat_with_groq env st u))
          = calls st @ (CompletionCall (first_request (messages st @ [UserMsg u])) # new)"
    using assms(1,2) by (simp add: chat_except_session append_message_def)
  moreover have "completion_requests (CompletionCall (first_request (messages st @ [UserMsg u])) # new)
          = [first_request (messages st @ [UserMsg u])]"
    using assms(3) by simp
  ultimately show ?thesis by blast
qed

lemma no_tool_round_calls:
  assumes "tool_round env st u = None"
  shows "calls (snd (chat_with_groq env st u))
           = calls st @ [CompletionCall (first_request (messages st @ [UserMsg u]))]"
  unfolding chat_no_tool_round [OF assms]
  by (auto simp: call_completion_def chat_except_session finish_turn_def append_message_def
           split: prod.splits sum.splits)

lemma tool_round_calls:
  assumes "tool_round env st u = Some (m, st2)"
    and "run_tool_calls env st2 (requested_calls m) = (r, st3)"
  shows "\<exists>new. calls st3 = calls st @ CompletionCall (first_request (messages st @ [UserMsg u])) # new
           \<and> completion_requests new = []"
proof -
  from run_tool_calls_calls [of env st2 "requested_calls m"] assms(2)
  obtain new where "calls st3 = calls st2 @ new" "completion_requests new = []" by auto
  with tool_round_session(3) [OF assms(1)] show ?thesis by simp
qed

text \<open>
  Claim C9. The completion requests of a turn, read from the log of calls. Every turn sends
  as its first request the system instruction followed by the history including the new user
  message, with the tool declarations and tool choice \<^verbatim>\<open>auto\<close>. A turn sends at most one more
  request, and that one is the system instruction followed by the history as it is then
  (everything but the assistant message the turn ends with), without tool declarations and
  without a tool choice. When a tool round runs to its end, this second request is sent, and
  its history is the old one, the user message, the assistant message with the requests and
  one tool message per request.
\<close>

theorem requests_of_turn:
  "(\<exists>new. calls (snd (chat_with_groq env st u)) = calls st @ new \<and>
      (completion_requests new = [first_request (messages st @ [UserMsg u])] \<or>
       completion_requests new
         = [first_request (messages st @ [UserMsg u]),
            final_request (butlast (messages (snd (chat_with_groq env st u))))]))
   \<and> (tool_round env st u = Some (m, st2) \<and>
      run_tool_calls env st2 (requested_calls m) = (Inr v, st3) \<longrightarrow>
        (\<exists>new results.
           calls (snd (chat_with_groq env st u)) = calls st @ new \<and>
           completion_requests new
             = [first_request (messages st @ [UserMsg u]), final_request (messages st3)] \<and>
           length results = length (requested_calls m) \<and>
           messages st3
             = messages st @ [UserMsg u, AssistantCalls (content_or_empty m) (requested_calls m)]
               @ tool_messages (requested_calls m) results))
   \<and> req_tools (first_request h) = Some TOOLS
   \<and> req_tool_choice (first_request h) = Some ''auto''
   \<and> req_messages (first_request h) = SystemMsg SYSTEM_PROMPT # h
   \<and> req_tools (final_request h) = None
   \<and> req_tool_choice (final_request h) = None
   \<and> req_messages (final_request h) = SystemMsg SYSTEM_PROMPT # h"
proof -
  let ?first = "first_request (messages st @ [UserMsg u])"
  let ?st' = "snd (chat_with_groq env st u)"
  have completed: "\<exists>new. calls ?st' = calls st @ new \<and>
           completion_requests new = [?first, final_request (messages s3)] \<and>
           messages s3 = butlast (messages ?st')"
    if tr: "tool_round env st u = Some (m', s2)"
      and rt: "run_tool_calls env s2 (requested_calls m') = (Inr v', s3)" for m' s2 v' s3
  proof -
    from tool_round_calls [OF tr rt] obtain new where
      n: "calls s3 = calls st @ CompletionCall ?first # new" "completion_requests new = []"
      by blast
    from tool_round_completed [OF tr rt] obtain a where
      a: "messages ?st' = messages s3 @ [AssistantMsg a]"
         "calls ?st' = calls s3 @ [CompletionCall (final_request (messages s3))]"
      by blast
    have "calls ?st' = calls st @ (CompletionCall ?first # new @ [CompletionCall (final_request (messages s3))])"
      using n a by simp
    moreover have "completion_requests (CompletionCall ?first # new @ [CompletionCall (final_request (messages s3))])
        = [?first, final_request (messages s3)]"
      using n(2) by (simp add: completion_requests_append)
    moreover have "messages s3 = butlast (messages ?st')"
      using a(1) by simp
    ultimately show ?thesis by blast
  qed
  have general: "\<exists>new. calls ?st' = calls st @ new \<and>
      (completion_requests new = [?first] \<or>
       completion_requests new = [?first, final_request (butlast (messages ?st'))])"
  proof (cases "tool_round env st u")
    case None
    have "completion_requests [CompletionCall ?first :: 'a call] = [?first]" by simp
    with no_tool_round_calls [OF None] show ?thesis by blast
  next
    case (Some p)
    obtain m' s2 where p: "p = (m', s2)" by (cases p)
    obtain r s3 where rt: "run_tool_calls env s2 (requested_calls m') = (r, s3)"
      by (cases "run_tool_calls env s2 (requested_calls m')")
    from Some p have tr: "tool_round env st u = Some (m', s2)" by simp
    show ?thesis
    proof (cases r)
      case (Inl e)
      from tool_round_calls [OF tr rt] obtain new where
        n: "calls s3 = calls st @ CompletionCall ?first # new" "completion_requests new = []"
        by blast
      from rt Inl have "chat_with_groq env st u = chat_except env s3 e"
        using chat_tool_round_raises [OF tr] by simp
      from turn_without_final_call [OF this n] show ?thesis by blast
    next
      case (Inr v')
      with rt have "run_tool_calls env s2 (requested_calls m') = (Inr v', s3)" by simp
      from completed [OF tr this] show ?thesis by metis
    qed
  qed
  have round: "\<exists>new results.
           calls ?st' = calls st @ new \<and>
           completion_requests new = [?first, final_request (messages st3)] \<and>
           length results = length (requested_calls m) \<and>
           messages st3
             = messages st @ [UserMsg u, AssistantCalls (content_or_empty m) (requested_calls m)]
               @ tool_messages (requested_calls m) results"
    if tr: "tool_round env st u = Some (m, st2)"
      and rt: "run_tool_calls env st2 (requested_calls m) = (Inr v, st3)"
    using completed [OF tr rt] tool_round_history [OF tr rt] by blast
  from general round show ?thesis
    by (simp add: request_shapes)
qed


theorem requests_of_turn_witness:
  "tools_requested demo_env demo_session ''London?''
   \<and> completion_requests (calls (snd (chat_with_groq demo_env demo_session ''London?'')))
       = [first_request [UserMsg ''London?''],
          final_request
            [UserMsg ''London?'',
             AssistantCalls [] [demo_call ''call_1'' ''get_weather'' (city_arguments ''London'')],
             ToolMsg ''call_1''
               (''Weather in London, GB:'' @ newline
                @ ''- Temperature: 15.2'' @ degree @ ''C (feels like 14.8'' @ degree @ ''C)'' @ newline
                @ ''- Conditions: Light rain'' @ newline
                @ ''- Humidity: 70%'' @ newline
                @ ''- Wind Speed: 4.1 m/s'')]]
   \<and> req_tools (first_request [UserMsg ''London?'']) = Some TOOLS
   \<and> req_tools (final_request [UserMsg ''London?'']) = None"
proof -
  let ?r = "the (tool_round demo_env demo_session ''London?'')"
  let ?st3 = "snd (run_tool_calls demo_env (snd ?r) (requested_calls (fst ?r)))"
  have t: "tool_round demo_env demo_session ''London?'' = Some (fst ?r, snd ?r)"
    by code_simp
  have l: "run_tool_calls demo_env (snd ?r) (requested_calls (fst ?r)) = (Inr (), ?st3)"
    by code_simp
  have q: "tools_requested demo_env demo_session ''London?''"
    by code_simp
  have d: "calls demo_session = []" "messages demo_session = []"
    by (simp_all add: demo_session_def new_session_def)
  have m: "messages ?st3
       = [UserMsg ''London?'',
          AssistantCalls [] [demo_call ''call_1'' ''get_weather'' (city_arguments ''London'')],
          ToolMsg ''call_1''
            (''Weather in London, GB:'' @ newline
             @ ''- Temperature: 15.2'' @ degree @ ''C (feels like 14.8'' @ degree @ ''C)'' @ newline
             @ ''- Conditions: Light rain'' @ newline
             @ ''- Humidity: 70%'' @ newline
             @ ''- Wind Speed: 4.1 m/s'')]"
    by code_simp
  note inst = requests_of_turn
    [of demo_env demo_session "''London?''" "fst ?r" "snd ?r" "()" ?st3 "[UserMsg ''London?'']"]
  from inst t l have
    "\<exists>new. calls (snd (chat_with_groq demo_env demo_session ''London?'')) = calls demo_session @ new \<and>
        completion_requests new
          = [first_request (messages demo_session @ [UserMsg ''London?'']), final_request (messages ?st3)]"
    by blast
  then have "completion_requests (calls (snd (chat_with_groq demo_env demo_session ''London?'')))
       = [first_request [UserMsg ''London?''], final_request (messages ?st3)]"
    using d by auto
  moreover from inst have "req_tools (first_request [UserMsg ''London?'']) = Some TOOLS
     \<and> req_tools (final_request [UserMsg ''London?'']) = None"
    by blast
  ultimately show ?thesis using q m by simp
qed

text \<open>
  Claim C10. The dispatcher has no handler of its own. A request whose argument payload
  \<^verbatim>\<open>json.loads\<close> rejects makes it raise that exception whatever the tool name is, since the
  payload is parsed before the name is looked at; a \<^verbatim>\<open>get_weather\<close> request whose payload
  parses to an object without the key \<^verbatim>\<open>city\<close> makes it raise \<^verbatim>\<open>KeyError\<close>. When such a request
  is reached in the loop of a tool round (the requests before it dispatched without
  exception), the exception ends the loop, is caught by the handler of the orchestrator and
  comes back as the diagnostic string of the completion endpoint, appended as an assistant
  message.
\<close>

theorem dispatcher_exception_reaches_orchestrator:
  assumes "json_loads env (tc_arguments tc) = Inl e
           \<or> (tc_name tc = ''get_weather''
               \<and> json_loads env (tc_arguments tc) = Inr (JObj kvs)
               \<and> map_of kvs ''city'' = None
               \<and> e = KeyError (KStr ''city''))"
  shows "execute_tool_call env s tc = (Inl e, s)
       \<and> (tool_round env st u = Some (m, st2)
          \<and> requested_calls m = pre @ tc # post
          \<and> run_tool_calls env st2 pre = (Inr v, st3) \<longrightarrow>
            chat_with_groq env st u
              = (Inr (Some (diagnostic env e)),
                 append_message st3 (AssistantMsg (Some (diagnostic env e)))))"
proof -
  have raises: "execute_tool_call env s' tc = (Inl e, s')" for s'
    using assms by (auto simp: execute_tool_call_def)
  have "chat_with_groq env st u
          = (Inr (Some (diagnostic env e)), append_message st3 (AssistantMsg (Some (diagnostic env e))))"
    if tr: "tool_round env st u = Some (m, st2)"
      and rc: "requested_calls m = pre @ tc # post"
      and rt: "run_tool_calls env st2 pre = (Inr v, st3)"
  proof -
    from run_tool_calls_append_raises [OF rt raises, of post] rc
    have "run_tool_calls env st2 (requested_calls m) = (Inl e, st3)" by simp
    from chat_tool_round_raises [OF tr this] show ?thesis
      by (simp add: chat_except_session)
  qed
  with raises show ?thesis by blast
qed

theorem dispatcher_exception_reaches_orchestrator_witness:
  "json_loads demo_env (tc_arguments (demo_call ''call_4'' ''get_time'' ''{''))
     = Inl (OtherError ''JSONDecodeError'')
   \<and> fst (execute_tool_call demo_env demo_session (demo_call ''call_4'' ''get_time'' ''{''))
       = Inl (OtherError ''JSONDecodeError'')
   \<and> chat_with_groq demo_env demo_session ''Time?''
       = (Inr (Some (diagnostic demo_env (OtherError ''JSONDecodeError''))),
          append_message (snd (the (tool_round demo_env demo_session ''Time?'')))
            (AssistantMsg (Some (diagnostic demo_env (OtherError ''JSONDecodeError'')))))
   \<and> json_loads demo_env (tc_arguments (demo_call ''call_3'' ''get_weather'' location_arguments))
       = Inr (JObj [(''location'', JStr ''Paris'')])
   \<and> fst (execute_tool_call demo_env demo_session (demo_call ''call_3'' ''get_weather'' location_arguments))
       = Inl (KeyError (KStr ''city''))
   \<and> fst (chat_with_groq demo_env demo_session ''Paris?'')
       = Inr (Some (diagnostic demo_env (KeyError (KStr ''city''))))"
proof -
  let ?bad = "demo_call ''call_4'' ''get_time'' ''{''"
  let ?nokey = "demo_call ''call_3'' ''get_weather'' location_arguments"
  let ?r1 = "the (tool_round demo_env demo_session ''Time?'')"
  let ?r2 = "the (tool_round demo_env demo_session ''Paris?'')"
  have j1: "json_loads demo_env (tc_arguments ?bad) = Inl (OtherError ''JSONDecodeError'')"
    by code_simp
  have j2: "json_loads demo_env (tc_arguments ?nokey) = Inr (JObj [(''location'', JStr ''Paris'')])"
    by code_simp
  have n2: "tc_name ?nokey = ''get_weather''" by (simp add: demo_call_def)
  have k2: "map_of [(''location'', JStr ''Paris'' :: string json)] ''city'' = None" by simp
  have t1: "tool_round demo_env demo_session ''Time?'' = Some (fst ?r1, snd ?r1)" by code_simp
  have t2: "tool_round demo_env demo_session ''Paris?'' = Some (fst ?r2, snd ?r2)" by code_simp
  have c1: "requested_calls (fst ?r1) = [] @ ?bad # []" by code_simp
  have c2: "requested_calls (fst ?r2) = [] @ ?nokey # []" by code_simp
  have e: "run_tool_calls demo_env s [] = (Inr (), s)" for s :: "(string, nat) session" by simp
  from j1 have a1: "json_loads demo_env (tc_arguments ?bad) = Inl (OtherError ''JSONDecodeError'')
           \<or> (tc_name ?bad = ''get_weather''
               \<and> json_loads demo_env (tc_arguments ?bad) = Inr (JObj [])
               \<and> map_of [] ''city'' = None
               \<and> OtherError ''JSONDecodeError'' = KeyError (KStr ''city''))"
    by (rule disjI1)
  from n2 j2 k2 have a2: "json_loads demo_env (tc_arguments ?nokey) = Inl (KeyError (KStr ''city''))
           \<or> (tc_name ?nokey = ''get_weather''
               \<and> json_loads demo_env (tc_arguments ?nokey) = Inr (JObj [(''location'', JStr ''Paris'')])
               \<and> map_of [(''location'', JStr ''Paris'' :: string json)] ''city'' = None
               \<and> KeyError (KStr ''city'') = KeyError (KStr ''city''))"
    by blast
  note i1 = dispatcher_exception_reaches_orchestrator
    [OF a1, of demo_session demo_session "''Time?''" "fst ?r1" "snd ?r1" "[]" "[]" "()" "snd ?r1"]
  note i2 = dispatcher_exception_reaches_orchestrator
    [OF a2, of demo_session demo_session "''Paris?''" "fst ?r2" "snd ?r2" "[]" "[]" "()" "snd ?r2"]
  from i1 t1 c1 e have
    "fst (execute_tool_call demo_env demo_session ?bad) = Inl (OtherError ''JSONDecodeError'')
     \<and> chat_with_groq demo_env demo_session ''Time?''
       = (Inr (Some (diagnostic demo_env (OtherError ''JSONDecodeError''))),
          append_message (snd ?r1)
            (AssistantMsg (Some (diagnostic demo_env (OtherError ''JSONDecodeError'')))))"
    by simp
  moreover from i2 t2 c2 e have
    "fst (execute_tool_call demo_env demo_session ?nokey) = Inl (KeyError (KStr ''city''))
     \<and> fst (chat_with_groq demo_env demo_session ''Paris?'')
       = Inr (Some (diagnostic demo_env (KeyError (KStr ''city''))))"
    by simp
  ultimately show ?thesis using j1 j2 by blast
qed

text \<open>
  Claim C1, at a turn where it fails. The endpoint answers \<^verbatim>\<open>Paris?\<close> with one \<^verbatim>\<open>get_weather\<close>
  request whose arguments are \<^verbatim>\<open>{"location": "Paris"}\<close>. The subscript \<^verbatim>\<open>arguments["city"]\<close>
  raises inside the loop of line 167, after the assistant message holding the request has
  been appended and before any tool message is. The history after the turn holds the
  request and no tool message for \<^verbatim>\<open>call_3\<close>, and the first request of the next turn carries
  that history to the endpoint.
\<close>

theorem unanswered_tool_request:
  "tools_requested demo_env demo_session ''Paris?''
   \<and> messages (snd (chat_with_groq demo_env demo_session ''Paris?''))
       = [UserMsg ''Paris?'',
          AssistantCalls [] [demo_call ''call_3'' ''get_weather'' location_arguments],
          AssistantMsg (Some (diagnostic demo_env (KeyError (KStr ''city''))))]
   \<and> completion_requests (calls (chat_turns demo_env demo_session [''Paris?'', ''Hello'']))
       = [first_request [UserMsg ''Paris?''],
          first_request
            [UserMsg ''Paris?'',
             AssistantCalls [] [demo_call ''call_3'' ''get_weather'' location_arguments],
             AssistantMsg (Some (diagnostic demo_env (KeyError (KStr ''city'')))),
             UserMsg ''Hello'']]"
  by code_simp


section \<open>Properties of the tool dispatcher\<close>

text \<open>
  Claim C7, at a request where it fails. The request names the tool \<^verbatim>\<open>get_time\<close>, which is not
  in the registry, and its argument payload is \<^verbatim>\<open>{\<close>. The fallback of line 117 is never
  reached: \<^verbatim>\<open>json.loads\<close> on line 100 runs before the name is compared on line 102 and its
  exception leaves the dispatcher, where the claim has it return the placeholder string.
\<close>

theorem unknown_tool_bad_payload_raises:
  "tc_name (demo_call ''call_4'' ''get_time'' ''{'') \<noteq> ''get_weather''
   \<and> fst (execute_tool_call demo_env demo_session (demo_call ''call_4'' ''get_time'' ''{''))
       = Inl (OtherError ''JSONDecodeError'')"
  by code_simp

text \<open>
  The fallback is reached once the payload has parsed: a request whose name is not
  \<^verbatim>\<open>get_weather\<close> then gets the string \<^verbatim>\<open>Unknown tool\<close>, and the weather provider is not called.
\<close>

theorem unknown_tool_placeholder:
  assumes "tc_name tc \<noteq> ''get_weather''"
    and "json_loads env (tc_arguments tc) = Inr args"
  shows "execute_tool_call env st tc = (Inr ''Unknown tool'', st)"
  using assms by (simp add: execute_tool_call_def)

theorem unknown_tool_placeholder_witness:
  "tc_name (demo_call ''call_9'' ''get_time'' location_arguments) \<noteq> ''get_weather''
   \<and> json_loads demo_env (tc_arguments (demo_call ''call_9'' ''get_time'' location_arguments))
       = Inr (JObj [(''location'', JStr ''Paris'')])
   \<and> execute_tool_call demo_env demo_session (demo_call ''call_9'' ''get_time'' location_arguments)
       = (Inr ''Unknown tool'', demo_session)"
proof -
  have n: "tc_name (demo_call ''call_9'' ''get_time'' location_arguments) \<noteq> ''get_weather''"
    by (simp add: demo_call_def)
  have j: "json_loads demo_env (tc_arguments (demo_call ''call_9'' ''get_time'' location_arguments))
       = Inr (JObj [(''location'', JStr ''Paris'')])"
    by code_simp
  from n j unknown_tool_placeholder [OF n j, of demo_session] show ?thesis by simp
qed

text \<open>
  Claim C4. For a \<^verbatim>\<open>get_weather\<close> request whose arguments name the city \<open>c\<close>: when the lookup
  of \<open>c\<close> succeeds, its description being a text as the data model of the specification has it,
  the dispatcher returns the five-line text made of the city, country, temperature, feels-like
  temperature, capitalized description, humidity and wind speed of the lookup data, each
  printed as an f-string prints it, and nothing else from the data; when the lookup fails,
  the dispatcher returns the failure reason unchanged.
\<close>

theorem weather_result_rendered:
  assumes "tc_name tc = ''get_weather''"
    and "json_loads env (tc_arguments tc) = Inr args"
    and "getitem args (KStr ''city'') = Inr c"
  shows "(get_weather env st c = (Inr (Success d), st') \<and> wi_description d = JStr s \<longrightarrow>
            execute_tool_call env st tc =
              (Inr (''Weather in '' @ fmt env (wi_city d) @ '', '' @ fmt env (wi_country d)
                      @ '':'' @ newline
                    @ ''- Temperature: '' @ fmt env (wi_temperature d) @ degree
                      @ ''C (feels like '' @ fmt env (wi_feels_like d) @ degree @ ''C)'' @ newline
                    @ ''- Conditions: '' @ str_capitalize env s @ newline
                    @ ''- Humidity: '' @ fmt env (wi_humidity d) @ ''%'' @ newline
                    @ ''- Wind Speed: '' @ fmt env (wi_wind_speed d) @ '' m/s''), st'))
       \<and> (get_weather env st c = (Inr (Failure reason), st') \<longrightarrow>
            execute_tool_call env st tc = (Inr reason, st'))"
  using assms
  by (simp add: execute_tool_call_def render_weather_def method_capitalize_def bind_exn_simps)

theorem weather_result_rendered_witness:
  "get_weather demo_env demo_session (JStr ''London'')
     = (Inr (Success \<lparr> wi_city = JStr ''London'', wi_country = JStr ''GB'',
                        wi_temperature = JNum ''15.2'', wi_feels_like = JNum ''14.8'',
                        wi_humidity = JNum ''70'', wi_description = JStr ''light rain'',
                        wi_wind_speed = JNum ''4.1'' \<rparr>),
        \<lparr> messages = [], world = Suc 0, calls = [WeatherCall (JStr ''London'')] \<rparr>)
   \<and> fst (execute_tool_call demo_env demo_session
            (demo_call ''call_1'' ''get_weather'' (city_arguments ''London'')))
       = Inr (''Weather in London, GB:'' @ newline
              @ ''- Temperature: 15.2'' @ degree @ ''C (feels like 14.8'' @ degree @ ''C)'' @ newline
              @ ''- Conditions: Light rain'' @ newline
              @ ''- Humidity: 70%'' @ newline
              @ ''- Wind Speed: 4.1 m/s'')
   \<and> get_weather demo_env demo_session (JStr ''Zzqqxx'')
       = (Inr (Failure ''City 'Zzqqxx' not found. Please check the spelling.''),
          \<lparr> messages = [], world = Suc 0, calls = [WeatherCall (JStr ''Zzqqxx'')] \<rparr>)
   \<and> fst (execute_tool_call demo_env demo_session
            (demo_call ''call_2'' ''get_weather'' (city_arguments ''Zzqqxx'')))
       = Inr ''City 'Zzqqxx' not found. Please check the spelling.''"
proof -
  let ?london = "demo_call ''call_1'' ''get_weather'' (city_arguments ''London'')"
  let ?nowhere = "demo_call ''call_2'' ''get_weather'' (city_arguments ''Zzqqxx'')"
  let ?d = "\<lparr> wi_city = JStr ''London'', wi_country = JStr ''GB'',
              wi_temperature = JNum ''15.2'', wi_feels_like = JNum ''14.8'',
              wi_humidity = JNum ''70'', wi_description = JStr ''light rain'',
              wi_wind_speed = JNum ''4.1'' \<rparr>"
  have n1: "tc_name ?london = ''get_weather''" and n2: "tc_name ?nowhere = ''get_weather''"
    by (simp_all add: demo_call_def)
  have j1: "json_loads demo_env (tc_arguments ?london) = Inr (JObj [(''city'', JStr ''London'')])"
    by code_simp
  have j2: "json_loads demo_env (tc_arguments ?nowhere) = Inr (JObj [(''city'', JStr ''Zzqqxx'')])"
    by code_simp
  have g1: "getitem (JObj [(''city'', JStr ''London'' :: string json)]) (KStr ''city'') = Inr (JStr ''London'')"
    by simp
  have g2: "getitem (JObj [(''city'', JStr ''Zzqqxx'' :: string json)]) (KStr ''city'') = Inr (JStr ''Zzqqxx'')"
    by simp
  have w1: "get_weather demo_env demo_session (JStr ''London'')
     = (Inr (Success ?d), \<lparr> messages = [], world = Suc 0, calls = [WeatherCall (JStr ''London'')] \<rparr>)"
    by code_simp
  have w2: "get_weather demo_env demo_session (JStr ''Zzqqxx'')
       = (Inr (Failure ''City 'Zzqqxx' not found. Please check the spelling.''),
          \<lparr> messages = [], world = Suc 0, calls = [WeatherCall (JStr ''Zzqqxx'')] \<rparr>)"
    by code_simp
  have s1: "wi_description ?d = JStr ''light rain''" by simp
  have f: "fmt demo_env (JStr x) = x" "fmt demo_env (JNum x) = x" "str_capitalize demo_env ''light rain'' = ''Light rain''" for x
    by (simp_all add: fmt_def demo_env_def demo_str_value_def demo_capitalize_def)
  from weather_result_rendered [OF n1 j1 g1, of demo_session ?d _ "''light rain''"] w1 s1
  have "fst (execute_tool_call demo_env demo_session ?london)
       = Inr (''Weather in London, GB:'' @ newline
              @ ''- Temperature: 15.2'' @ degree @ ''C (feels like 14.8'' @ degree @ ''C)'' @ newline
              @ ''- Conditions: Light rain'' @ newline
              @ ''- Humidity: 70%'' @ newline
              @ ''- Wind Speed: 4.1 m/s'')"
    by (simp add: f)
  moreover from weather_result_rendered [OF n2 j2 g2, of demo_session] w2
  have "fst (execute_tool_call demo_env demo_session ?nowhere)
       = Inr ''City 'Zzqqxx' not found. Please check the spelling.''"
    by simp
  ultimately show ?thesis using w1 w2 by blast
qed

text \<open>
  The description is the one field whose type the rendering depends on: the other six are
  printed whatever they are, while \<^verbatim>\<open>capitalize\<close> exists on a \<^verbatim>\<open>str\<close> only.
\<close>

lemma description_not_text_raises:
  assumes "tc_name tc = ''get_weather''"
    and "json_loads env (tc_arguments tc) = Inr args"
    and "getitem args (KStr ''city'') = Inr c"
    and "get_weather env st c = (Inr (Success d), st')"
    and "\<forall>s. wi_description d \<noteq> JStr s"
  shows "execute_tool_call env st tc = (Inl AttributeError, st')"
  using assms
  by (simp add: execute_tool_call_def render_weather_def method_capitalize_def bind_exn_simps
           split: json.splits)

end
